theory Spec2Isabelle
  imports Main "HOL-Library.Word"
begin

section \<open>The zap types the adapter is written against\<close>

text \<open>
  The package \<^verbatim>\<open>zapcloudlogging\<close> consists of \<^verbatim>\<open>encoder.go\<close> (a severity table and three
  encoder callbacks) and \<^verbatim>\<open>config.go\<close> (two configuration builders). Both are written
  against types of \<^verbatim>\<open>go.uber.org/zap\<close> and of Go's standard library. Those types are
  declared here as far as the package touches them.
\<close>

subsection \<open>Levels\<close>

text \<open>
  \<^verbatim>\<open>zapcore.Level\<close> is declared as \<^verbatim>\<open>type Level int8\<close>, with
  \<^verbatim>\<open>DebugLevel Level = iota - 1\<close> followed by \<^verbatim>\<open>InfoLevel\<close>, \<^verbatim>\<open>WarnLevel\<close>,
  \<^verbatim>\<open>ErrorLevel\<close>, \<^verbatim>\<open>DPanicLevel\<close>, \<^verbatim>\<open>PanicLevel\<close> and \<^verbatim>\<open>FatalLevel\<close>. A level is
  therefore any of the 256 values of an 8 bit integer, of which seven have a name.
\<close>

type_synonym Level = "8 word"

definition DebugLevel :: Level where "DebugLevel = - 1"
definition InfoLevel :: Level where "InfoLevel = 0"
definition WarnLevel :: Level where "WarnLevel = 1"
definition ErrorLevel :: Level where "ErrorLevel = 2"
definition DPanicLevel :: Level where "DPanicLevel = 3"
definition PanicLevel :: Level where "PanicLevel = 4"
definition FatalLevel :: Level where "FatalLevel = 5"

definition nativeLevels :: "Level list" where
  "nativeLevels =
     [DebugLevel, InfoLevel, WarnLevel, ErrorLevel, DPanicLevel, PanicLevel, FatalLevel]"

subsection \<open>Encoders\<close>

text \<open>
  An encoder callback receives a \<^verbatim>\<open>zapcore.PrimitiveArrayEncoder\<close> and calls its methods.
  The model of an encoder is the record of what has been appended to it, in order, as
  zap's own in-memory encoders keep it, together with the one fact about its dynamic
  type that the callbacks inspect: whether it also implements \<^verbatim>\<open>zapcore.ArrayEncoder\<close>.

  An \<^verbatim>\<open>ObjectEncoder\<close> is the list of the fields added to it, in order. Go's \<^verbatim>\<open>int\<close> is
  taken to be 64 bits wide.
\<close>

datatype error = Error string

datatype field = StringField string | Int64Field "64 word" | IntField "64 word"

type_synonym ObjectEncoder = "(string \<times> field) list"

definition AddString :: "string \<Rightarrow> string \<Rightarrow> ObjectEncoder \<Rightarrow> ObjectEncoder" where
  "AddString k v enc = enc @ [(k, StringField v)]"

definition AddInt64 :: "string \<Rightarrow> 64 word \<Rightarrow> ObjectEncoder \<Rightarrow> ObjectEncoder" where
  "AddInt64 k v enc = enc @ [(k, Int64Field v)]"

definition AddInt :: "string \<Rightarrow> 64 word \<Rightarrow> ObjectEncoder \<Rightarrow> ObjectEncoder" where
  "AddInt k v enc = enc @ [(k, IntField v)]"

type_synonym ObjectMarshaler = "ObjectEncoder \<Rightarrow> ObjectEncoder \<times> error option"

datatype elem = StringElem string | ObjectElem "(string \<times> field) list"

record PrimitiveArrayEncoder =
  is_ArrayEncoder :: bool
  elems :: "elem list"

definition AppendString :: "string \<Rightarrow> PrimitiveArrayEncoder \<Rightarrow> PrimitiveArrayEncoder" where
  "AppendString s enc = enc\<lparr>elems := elems enc @ [StringElem s]\<rparr>"

text \<open>
  \<^verbatim>\<open>AppendObject\<close> hands the marshaler a fresh object encoder, appends the object it
  filled and returns the marshaler's error.
\<close>

definition AppendObject ::
  "ObjectMarshaler \<Rightarrow> PrimitiveArrayEncoder \<Rightarrow> PrimitiveArrayEncoder \<times> error option" where
  "AppendObject m enc =
     (let (obj, err) = m [] in (enc\<lparr>elems := elems enc @ [ObjectElem obj]\<rparr>, err))"

subsection \<open>Callers, times and the library functions the callbacks delegate to\<close>

record EntryCaller =
  caller_Defined :: bool
  caller_PC :: "64 word"
  caller_File :: string
  caller_Line :: "64 word"
  caller_Function :: string

text \<open>
  A \<^verbatim>\<open>time.Time\<close> is an instant with nanosecond precision and a location. The instant is
  kept as the number of nanoseconds from the Unix epoch to it, an integer of any size:
  no instant is left out.

  \<^verbatim>\<open>t.Unix()\<close> returns the number of whole seconds from the epoch to the instant (rounded
  towards minus infinity) as an \<^verbatim>\<open>int64\<close>. Go computes it by an \<^verbatim>\<open>int64\<close> addition, which
  wraps around, so that for an instant whose number of seconds is not an \<^verbatim>\<open>int64\<close> the
  result is that number modulo 2^64, read as a signed 64 bit integer. \<^verbatim>\<open>t.Nanosecond()\<close>
  is the offset within the second, an \<^verbatim>\<open>int\<close>.
\<close>

record Time =
  instant :: int
  location :: string

definition Unix :: "Time \<Rightarrow> 64 word" where
  "Unix t = word_of_int (instant t div 1000000000)"

definition Nanosecond :: "Time \<Rightarrow> 64 word" where
  "Nanosecond t = word_of_int (instant t mod 1000000000)"

type_synonym Duration = "64 word"

text \<open>
  The library functions and constants that the package refers to without defining them
  are parameters of the model: \<^verbatim>\<open>zapcore.OmitKey\<close>, \<^verbatim>\<open>zapcore.DefaultLineEnding\<close>, the
  method \<^verbatim>\<open>EntryCaller.TrimmedPath\<close>, the method \<^verbatim>\<open>Time.Format\<close> of Go's \<^verbatim>\<open>time\<close> package,
  which renders a time in a layout, and the encoder \<^verbatim>\<open>zapcore.MillisDurationEncoder\<close>.
\<close>

record zapcore =
  OmitKey :: string
  DefaultLineEnding :: string
  TrimmedPath :: "EntryCaller \<Rightarrow> string"
  Time_Format :: "Time \<Rightarrow> string \<Rightarrow> string"
  MillisDurationEncoder :: "Duration \<Rightarrow> PrimitiveArrayEncoder \<Rightarrow> PrimitiveArrayEncoder"

text \<open>
  \<^verbatim>\<open>time.RFC3339Nano\<close> is the layout of RFC 3339 with nanoseconds.
  \<^verbatim>\<open>zapcore.RFC3339NanoTimeEncoder(t, enc)\<close> serializes \<^verbatim>\<open>t\<close> in this layout: it appends
  one string to the encoder, \<^verbatim>\<open>t.Format(time.RFC3339Nano)\<close>. (An encoder that has a method
  \<^verbatim>\<open>AppendTimeLayout\<close> is handed the time and the layout instead, and appends the time in
  that layout itself; in the record of what has been appended this is the same string.)
\<close>

definition RFC3339Nano :: string where
  "RFC3339Nano = ''2006-01-02T15:04:05.999999999Z07:00''"

definition RFC3339NanoTimeEncoder ::
  "zapcore \<Rightarrow> Time \<Rightarrow> PrimitiveArrayEncoder \<Rightarrow> PrimitiveArrayEncoder" where
  "RFC3339NanoTimeEncoder lib t enc = AppendString (Time_Format lib t RFC3339Nano) enc"

subsection \<open>Decimal rendering\<close>

text \<open>
  \<^verbatim>\<open>strconv.Itoa(i)\<close> is the decimal representation of the signed integer \<^verbatim>\<open>i\<close>: a minus
  sign for a negative value, then the digits of its magnitude without leading zeros.
\<close>

definition digit :: "nat \<Rightarrow> char" where
  "digit d = ''0123456789'' ! d"

function digits :: "nat \<Rightarrow> string" where
  "digits n = (if n < 10 then [digit n] else digits (n div 10) @ [digit (n mod 10)])"
  by pat_completeness auto
termination
  by (relation "measure id") auto

declare digits.simps [simp del]

definition Itoa :: "64 word \<Rightarrow> string" where
  "Itoa i = (if sint i < 0 then CHR ''-'' # digits (nat (- sint i)) else digits (nat (sint i)))"

section \<open>encoder.go\<close>

text \<open>
  \<^verbatim>\<open>logLevelSeverity\<close> is a package level map that nothing in the package assigns to after
  its initialisation. Indexing a Go map with a key it does not hold yields the zero value
  of the element type, here the empty string.
\<close>

definition logLevelSeverity :: "Level \<rightharpoonup> string" where
  "logLevelSeverity =
     [DebugLevel \<mapsto> ''DEBUG'',
      InfoLevel \<mapsto> ''INFO'',
      WarnLevel \<mapsto> ''WARNING'',
      ErrorLevel \<mapsto> ''ERROR'',
      DPanicLevel \<mapsto> ''CRITICAL'',
      PanicLevel \<mapsto> ''ALERT'',
      FatalLevel \<mapsto> ''EMERGENCY'']"

definition index_string :: "('k \<rightharpoonup> string) \<Rightarrow> 'k \<Rightarrow> string" where
  "index_string m k = (case m k of None \<Rightarrow> [] | Some s \<Rightarrow> s)"

definition severityEncoder :: "Level \<Rightarrow> PrimitiveArrayEncoder \<Rightarrow> PrimitiveArrayEncoder" where
  "severityEncoder l enc = AppendString (index_string logLevelSeverity l) enc"

record sourceLocation =
  File :: string
  Line :: "64 word"
  Function :: string

definition sourceLocation_MarshalLogObject :: "sourceLocation \<Rightarrow> ObjectMarshaler" where
  "sourceLocation_MarshalLogObject l enc =
     (let enc = AddString ''file'' (File l) enc;
          enc = AddString ''line'' (Itoa (Line l)) enc;
          enc = AddString ''function'' (Function l) enc
      in (enc, None))"

text \<open>The error that \<^verbatim>\<open>AppendObject\<close> returns is dropped by both callbacks.\<close>

definition sourceLocationEncoder ::
  "zapcore \<Rightarrow> EntryCaller \<Rightarrow> PrimitiveArrayEncoder \<Rightarrow> PrimitiveArrayEncoder" where
  "sourceLocationEncoder lib caller enc =
     (if is_ArrayEncoder enc then
        fst (AppendObject
          (sourceLocation_MarshalLogObject
            \<lparr>File = caller_File caller,
             Line = caller_Line caller,
             Function = caller_Function caller\<rparr>) enc)
      else AppendString (TrimmedPath lib caller) enc)"

record timestamp =
  Seconds :: "64 word"
  Nanos :: "64 word"

definition timestamp_MarshalLogObject :: "timestamp \<Rightarrow> ObjectMarshaler" where
  "timestamp_MarshalLogObject t enc =
     (let enc = AddInt64 ''seconds'' (Seconds t) enc;
          enc = AddInt ''nanos'' (Nanos t) enc
      in (enc, None))"

definition timestampEncoder ::
  "zapcore \<Rightarrow> Time \<Rightarrow> PrimitiveArrayEncoder \<Rightarrow> PrimitiveArrayEncoder" where
  "timestampEncoder lib t enc =
     (if is_ArrayEncoder enc then
        fst (AppendObject
          (timestamp_MarshalLogObject \<lparr>Seconds = Unix t, Nanos = Nanosecond t\<rparr>) enc)
      else RFC3339NanoTimeEncoder lib t enc)"

record EncoderConfig =
  MessageKey :: string
  LevelKey :: string
  TimeKey :: string
  NameKey :: string
  CallerKey :: string
  FunctionKey :: string
  StacktraceKey :: string
  LineEnding :: string
  EncodeLevel :: "Level \<Rightarrow> PrimitiveArrayEncoder \<Rightarrow> PrimitiveArrayEncoder"
  EncodeTime :: "Time \<Rightarrow> PrimitiveArrayEncoder \<Rightarrow> PrimitiveArrayEncoder"
  EncodeDuration :: "Duration \<Rightarrow> PrimitiveArrayEncoder \<Rightarrow> PrimitiveArrayEncoder"
  EncodeCaller :: "EntryCaller \<Rightarrow> PrimitiveArrayEncoder \<Rightarrow> PrimitiveArrayEncoder"

text \<open>
  \<^verbatim>\<open>encoderConfig\<close> is a package level variable of struct type that is only ever read;
  returning it copies the struct. Fields of \<^verbatim>\<open>zapcore.EncoderConfig\<close> that the literal
  leaves out hold Go's zero value.
\<close>

definition encoderConfig :: "zapcore \<Rightarrow> EncoderConfig" where
  "encoderConfig lib =
     \<lparr>MessageKey = ''message'',
      LevelKey = ''severity'',
      TimeKey = ''timestamp'',
      NameKey = ''logger'',
      CallerKey = ''logging.googleapis.com/sourceLocation'',
      FunctionKey = OmitKey lib,
      StacktraceKey = ''stacktrace'',
      LineEnding = DefaultLineEnding lib,
      EncodeLevel = severityEncoder,
      EncodeTime = timestampEncoder lib,
      EncodeDuration = MillisDurationEncoder lib,
      EncodeCaller = sourceLocationEncoder lib\<rparr>"

definition NewProductionEncoderConfig :: "zapcore \<Rightarrow> EncoderConfig" where
  "NewProductionEncoderConfig lib = encoderConfig lib"

definition NewDevelopmentEncoderConfig :: "zapcore \<Rightarrow> EncoderConfig" where
  "NewDevelopmentEncoderConfig lib = encoderConfig lib"

section \<open>config.go\<close>

subsection \<open>The store\<close>

text \<open>
  A \<^verbatim>\<open>zap.Config\<close> holds three kinds of references to mutable memory: the
  \<^verbatim>\<open>AtomicLevel\<close> (a handle on an atomic cell), the pointer \<^verbatim>\<open>*SamplingConfig\<close> and the
  two string slices (each a view of a backing array). The store is the list of the
  cells allocated so far; an address is an index into it, and an allocation appends a
  cell, so that its address is new.
\<close>

record SamplingConfig =
  Initial :: "64 word"
  Thereafter :: "64 word"

datatype cell =
  AtomicLevelCell Level
| SamplingCell SamplingConfig
| StringSliceCell "string list"

type_synonym addr = nat

type_synonym heap = "cell list"

definition alloc :: "cell \<Rightarrow> heap \<Rightarrow> addr \<times> heap" where
  "alloc c h = (length h, h @ [c])"

definition load :: "heap \<Rightarrow> addr \<Rightarrow> cell option" where
  "load h a = (if a < length h then Some (h ! a) else None)"

definition store :: "addr \<Rightarrow> cell \<Rightarrow> heap \<Rightarrow> heap" where
  "store a c h = (if a < length h then h[a := c] else h)"

text \<open>\<^verbatim>\<open>zap.NewAtomicLevelAt(l)\<close> creates a new atomic cell and sets it to \<^verbatim>\<open>l\<close>.\<close>

definition NewAtomicLevelAt :: "Level \<Rightarrow> heap \<Rightarrow> addr \<times> heap" where
  "NewAtomicLevelAt l h = alloc (AtomicLevelCell l) h"

subsection \<open>The builders\<close>

text \<open>
  The fields are those the composite literals of \<^verbatim>\<open>config.go\<close> set; the fields of
  \<^verbatim>\<open>zap.Config\<close> they leave out hold Go's zero value in both builders. The operands of
  a composite literal are evaluated in the order they are written, which fixes the order
  of the allocations.
\<close>

record Config =
  Level :: addr
  Development :: bool
  Sampling :: addr
  Encoding :: string
  EncoderConfig :: EncoderConfig
  OutputPaths :: addr
  ErrorOutputPaths :: addr

definition NewProductionConfig :: "zapcore \<Rightarrow> heap \<Rightarrow> Config \<times> heap" where
  "NewProductionConfig lib h =
     (let (level, h) = NewAtomicLevelAt InfoLevel h;
          (sampling, h) = alloc (SamplingCell \<lparr>Initial = 100, Thereafter = 100\<rparr>) h;
          encoderConfig = NewProductionEncoderConfig lib;
          (outputPaths, h) = alloc (StringSliceCell [''stderr'']) h;
          (errorOutputPaths, h) = alloc (StringSliceCell [''stderr'']) h
      in (\<lparr>Level = level,
           Development = False,
           Sampling = sampling,
           Encoding = ''json'',
           EncoderConfig = encoderConfig,
           OutputPaths = outputPaths,
           ErrorOutputPaths = errorOutputPaths\<rparr>, h))"

definition NewDevelopmentConfig :: "zapcore \<Rightarrow> heap \<Rightarrow> Config \<times> heap" where
  "NewDevelopmentConfig lib h =
     (let (level, h) = NewAtomicLevelAt DebugLevel h;
          (sampling, h) = alloc (SamplingCell \<lparr>Initial = 100, Thereafter = 100\<rparr>) h;
          encoderConfig = NewDevelopmentEncoderConfig lib;
          (outputPaths, h) = alloc (StringSliceCell [''stderr'']) h;
          (errorOutputPaths, h) = alloc (StringSliceCell [''stderr'']) h
      in (\<lparr>Level = level,
           Development = True,
           Sampling = sampling,
           Encoding = ''json'',
           EncoderConfig = encoderConfig,
           OutputPaths = outputPaths,
           ErrorOutputPaths = errorOutputPaths\<rparr>, h))"

subsection \<open>Reading a configuration\<close>

text \<open>
  What a configuration says is read through the store: \<^verbatim>\<open>cfg.Level.Level()\<close>,
  \<^verbatim>\<open>*cfg.Sampling\<close> and the elements of the two slices. Two configurations are equal
  as values when these readings agree, whatever the addresses.
\<close>

definition AtomicLevel_Level :: "heap \<Rightarrow> addr \<Rightarrow> Level option" where
  "AtomicLevel_Level h a = (case load h a of Some (AtomicLevelCell l) \<Rightarrow> Some l | _ \<Rightarrow> None)"

definition deref_Sampling :: "heap \<Rightarrow> addr \<Rightarrow> SamplingConfig option" where
  "deref_Sampling h a = (case load h a of Some (SamplingCell s) \<Rightarrow> Some s | _ \<Rightarrow> None)"

definition slice_elems :: "heap \<Rightarrow> addr \<Rightarrow> string list option" where
  "slice_elems h a = (case load h a of Some (StringSliceCell xs) \<Rightarrow> Some xs | _ \<Rightarrow> None)"

record ConfigValue =
  Level_value :: "Level option"
  Development_value :: bool
  Sampling_value :: "SamplingConfig option"
  Encoding_value :: string
  EncoderConfig_value :: EncoderConfig
  OutputPaths_value :: "string list option"
  ErrorOutputPaths_value :: "string list option"

definition config_value :: "heap \<Rightarrow> Config \<Rightarrow> ConfigValue" where
  "config_value h c =
     \<lparr>Level_value = AtomicLevel_Level h (Level c),
      Development_value = Development c,
      Sampling_value = deref_Sampling h (Sampling c),
      Encoding_value = Encoding c,
      EncoderConfig_value = EncoderConfig c,
      OutputPaths_value = slice_elems h (OutputPaths c),
      ErrorOutputPaths_value = slice_elems h (ErrorOutputPaths c)\<rparr>"

definition refs :: "Config \<Rightarrow> addr list" where
  "refs c = [Level c, Sampling c, OutputPaths c, ErrorOutputPaths c]"

definition build :: "bool \<Rightarrow> zapcore \<Rightarrow> heap \<Rightarrow> Config \<times> heap" where
  "build development lib h =
     (if development then NewDevelopmentConfig lib h else NewProductionConfig lib h)"

section \<open>Notions used to state the properties\<close>

text \<open>
  The value that a string of decimal digits denotes, to say what \<^verbatim>\<open>Itoa\<close> renders.
\<close>

definition digit_value :: "char \<Rightarrow> nat" where
  "digit_value c = of_char c - 48"

definition decimal_value :: "string \<Rightarrow> nat" where
  "decimal_value s = foldl (\<lambda>a c. 10 * a + digit_value c) 0 s"

text \<open>
  The field names of a structured log entry of Cloud Logging, as bound by an encoder
  configuration; the function name is bound to the key that makes zap leave it out.
\<close>

definition cloud_logging_keys :: "zapcore \<Rightarrow> EncoderConfig \<Rightarrow> bool" where
  "cloud_logging_keys lib ec \<longleftrightarrow>
     MessageKey ec = ''message'' \<and>
     LevelKey ec = ''severity'' \<and>
     TimeKey ec = ''timestamp'' \<and>
     NameKey ec = ''logger'' \<and>
     CallerKey ec = ''logging.googleapis.com/sourceLocation'' \<and>
     StacktraceKey ec = ''stacktrace'' \<and>
     FunctionKey ec = OmitKey lib"

section \<open>Properties of the encoders\<close>

lemmas Level_defs =
  DebugLevel_def InfoLevel_def WarnLevel_def ErrorLevel_def
  DPanicLevel_def PanicLevel_def FatalLevel_def

lemma logLevelSeverity_dom: "dom logLevelSeverity = set nativeLevels"
  by (auto simp: logLevelSeverity_def nativeLevels_def)

lemma distinct_nativeLevels: "distinct nativeLevels"
  by (simp add: nativeLevels_def Level_defs)

subsection \<open>Severity\<close>

text \<open>
  C1. For each of the seven native levels, \<^verbatim>\<open>severityEncoder\<close> appends exactly one
  string, the documented severity: Debug gives DEBUG, Info gives INFO, Warn gives
  WARNING, Error gives ERROR, DPanic gives CRITICAL, Panic gives ALERT and Fatal gives
  EMERGENCY.
\<close>

theorem severityEncoder_native_levels:
  "severityEncoder DebugLevel enc = enc\<lparr>elems := elems enc @ [StringElem ''DEBUG'']\<rparr> \<and>
   severityEncoder InfoLevel enc = enc\<lparr>elems := elems enc @ [StringElem ''INFO'']\<rparr> \<and>
   severityEncoder WarnLevel enc = enc\<lparr>elems := elems enc @ [StringElem ''WARNING'']\<rparr> \<and>
   severityEncoder ErrorLevel enc = enc\<lparr>elems := elems enc @ [StringElem ''ERROR'']\<rparr> \<and>
   severityEncoder DPanicLevel enc = enc\<lparr>elems := elems enc @ [StringElem ''CRITICAL'']\<rparr> \<and>
   severityEncoder PanicLevel enc = enc\<lparr>elems := elems enc @ [StringElem ''ALERT'']\<rparr> \<and>
   severityEncoder FatalLevel enc = enc\<lparr>elems := elems enc @ [StringElem ''EMERGENCY'']\<rparr>"
  by (simp add: severityEncoder_def AppendString_def index_string_def logLevelSeverity_def
      Level_defs)

text \<open>
  C2, as stated: for a level outside the seven native ones \<^verbatim>\<open>severityEncoder\<close> appends a
  non-empty fallback string. It does not: the level 42 is none of the seven, and the
  string appended for it is the empty one.
\<close>

theorem severityEncoder_unmapped_counterexample:
  "(42 :: Level) \<notin> set nativeLevels \<and>
   elems (severityEncoder 42 \<lparr>is_ArrayEncoder = True, elems = []\<rparr>) = [StringElem []]"
  by (simp add: severityEncoder_def AppendString_def index_string_def logLevelSeverity_def
      nativeLevels_def Level_defs)

text \<open>
  C2, amended: for every level outside the seven native ones \<^verbatim>\<open>severityEncoder\<close> appends
  exactly one string, the empty string, which is what indexing the table with a key it
  does not hold yields; the package defines no fallback severity.
\<close>

theorem severityEncoder_unmapped:
  "l \<notin> set nativeLevels \<Longrightarrow>
   severityEncoder l enc = enc\<lparr>elems := elems enc @ [StringElem []]\<rparr>"
proof -
  assume "l \<notin> set nativeLevels"
  then have "logLevelSeverity l = None"
    using logLevelSeverity_dom by blast
  then show ?thesis
    by (simp add: severityEncoder_def AppendString_def index_string_def)
qed

theorem severityEncoder_unmapped_witness:
  "(6 :: Level) \<notin> set nativeLevels \<and>
   severityEncoder 6 \<lparr>is_ArrayEncoder = False, elems = [StringElem ''x'']\<rparr> =
     \<lparr>is_ArrayEncoder = False, elems = [StringElem ''x'', StringElem []]\<rparr>"
proof -
  let ?enc = "\<lparr>is_ArrayEncoder = False, elems = [StringElem ''x'']\<rparr>"
  have h: "(6 :: Level) \<notin> set nativeLevels"
    by (simp add: nativeLevels_def Level_defs)
  show ?thesis
    using h severityEncoder_unmapped [OF h, of ?enc] by simp
qed

subsection \<open>Marshalling never fails\<close>

text \<open>
  C10. \<^verbatim>\<open>MarshalLogObject\<close> of \<^verbatim>\<open>sourceLocation\<close> and of \<^verbatim>\<open>timestamp\<close> returns the nil
  error for every receiver and every object encoder, so the \<^verbatim>\<open>AppendObject\<close> calls of
  \<^verbatim>\<open>sourceLocationEncoder\<close> and \<^verbatim>\<open>timestampEncoder\<close> return no marshalling error.
\<close>

theorem MarshalLogObject_nil_error:
  "snd (sourceLocation_MarshalLogObject l oenc) = None \<and>
   snd (timestamp_MarshalLogObject ts oenc) = None \<and>
   snd (AppendObject (sourceLocation_MarshalLogObject l) enc) = None \<and>
   snd (AppendObject (timestamp_MarshalLogObject ts) enc) = None"
  by (simp add: sourceLocation_MarshalLogObject_def timestamp_MarshalLogObject_def
      AppendObject_def Let_def)

subsection \<open>Source location\<close>

text \<open>\<^verbatim>\<open>Itoa\<close> renders the magnitude in decimal digits, after a minus sign if negative.\<close>

lemma digit_value_digit: "d < 10 \<Longrightarrow> digit_value (digit d) = d"
proof -
  assume "d < 10"
  then have "d \<in> {0, 1, 2, 3, 4, 5, 6, 7, 8, 9}" by auto
  then show ?thesis
    by (auto simp: digit_def digit_value_def)
qed

lemma decimal_value_digits: "decimal_value (digits n) = n"
proof (induction n rule: digits.induct)
  case (1 n)
  show ?case
  proof (cases "n < 10")
    case True
    then show ?thesis
      by (subst digits.simps) (simp add: decimal_value_def digit_value_digit)
  next
    case False
    then have "decimal_value (digits (n div 10)) = n div 10"
      using "1.IH" by simp
    with False show ?thesis
      by (subst digits.simps) (simp add: decimal_value_def digit_value_digit)
  qed
qed

lemma Itoa_decimal:
  "Itoa i = (if sint i < 0 then CHR ''-'' # digits (nat \<bar>sint i\<bar>) else digits (nat \<bar>sint i\<bar>)) \<and>
   decimal_value (digits (nat \<bar>sint i\<bar>)) = nat \<bar>sint i\<bar>"
  by (simp add: Itoa_def decimal_value_digits)

text \<open>
  C3. For every caller, \<^verbatim>\<open>sourceLocationEncoder\<close> appends exactly one element. If the
  encoder is an \<^verbatim>\<open>ArrayEncoder\<close>, the element is an object with the string fields
  \<^verbatim>\<open>file\<close> (the caller's file), \<^verbatim>\<open>line\<close> (the caller's line in decimal) and \<^verbatim>\<open>function\<close>
  (the caller's function), in this order. Otherwise it is the string that the caller's
  \<^verbatim>\<open>TrimmedPath\<close> returns.
\<close>

theorem sourceLocationEncoder_shapes:
  "sourceLocationEncoder lib caller enc =
     enc\<lparr>elems := elems enc @
       [if is_ArrayEncoder enc then
          ObjectElem
            [(''file'', StringField (caller_File caller)),
             (''line'', StringField (Itoa (caller_Line caller))),
             (''function'', StringField (caller_Function caller))]
        else StringElem (TrimmedPath lib caller)]\<rparr>"
  by (simp add: sourceLocationEncoder_def AppendObject_def AppendString_def
      sourceLocation_MarshalLogObject_def AddString_def Let_def)

theorem sourceLocationEncoder_shapes_witness:
  "\<forall>lib.
     sourceLocationEncoder lib
       \<lparr>caller_Defined = True, caller_PC = 0, caller_File = ''a/b.go'', caller_Line = 42,
        caller_Function = ''main.Foo''\<rparr>
       \<lparr>is_ArrayEncoder = True, elems = []\<rparr> =
     \<lparr>is_ArrayEncoder = True,
      elems = [ObjectElem [(''file'', StringField ''a/b.go''), (''line'', StringField ''42''),
        (''function'', StringField ''main.Foo'')]]\<rparr> \<and>
     sourceLocationEncoder lib
       \<lparr>caller_Defined = True, caller_PC = 0, caller_File = ''a/b.go'', caller_Line = 42,
        caller_Function = ''main.Foo''\<rparr>
       \<lparr>is_ArrayEncoder = False, elems = []\<rparr> =
     \<lparr>is_ArrayEncoder = False,
      elems = [StringElem (TrimmedPath lib
        \<lparr>caller_Defined = True, caller_PC = 0, caller_File = ''a/b.go'', caller_Line = 42,
         caller_Function = ''main.Foo''\<rparr>)]\<rparr>"
proof
  fix lib
  let ?caller = "\<lparr>caller_Defined = True, caller_PC = 0, caller_File = ''a/b.go'',
    caller_Line = 42, caller_Function = ''main.Foo''\<rparr>"
  have i: "Itoa 42 = ''42''"
    by (simp add: Itoa_def digits.simps digit_def)
  show "sourceLocationEncoder lib ?caller \<lparr>is_ArrayEncoder = True, elems = []\<rparr> =
     \<lparr>is_ArrayEncoder = True,
      elems = [ObjectElem [(''file'', StringField ''a/b.go''), (''line'', StringField ''42''),
        (''function'', StringField ''main.Foo'')]]\<rparr> \<and>
     sourceLocationEncoder lib ?caller \<lparr>is_ArrayEncoder = False, elems = []\<rparr> =
     \<lparr>is_ArrayEncoder = False, elems = [StringElem (TrimmedPath lib ?caller)]\<rparr>"
    using sourceLocationEncoder_shapes [of lib ?caller "\<lparr>is_ArrayEncoder = True, elems = []\<rparr>"]
      sourceLocationEncoder_shapes [of lib ?caller "\<lparr>is_ArrayEncoder = False, elems = []\<rparr>"]
    by (simp add: i)
qed

subsection \<open>Timestamp\<close>

lemma sint_word_of_int_64:
  "- (2 ^ 63) \<le> x \<Longrightarrow> x < 2 ^ 63 \<Longrightarrow> sint (word_of_int x :: 64 word) = x"
  by (simp add: sint_sbintrunc' signed_take_bit_int_eq_self)

lemma sint_Nanosecond: "sint (Nanosecond t) = instant t mod 1000000000"
proof -
  have "0 \<le> instant t mod 1000000000" and "instant t mod 1000000000 < 1000000000"
    by simp_all
  then have "- (2 ^ 63) \<le> instant t mod 1000000000" and "instant t mod 1000000000 < 2 ^ 63"
    by simp_all
  then show ?thesis
    unfolding Nanosecond_def by (rule sint_word_of_int_64)
qed

lemma sint_Unix:
  "- (2 ^ 63) \<le> instant t div 1000000000 \<Longrightarrow> instant t div 1000000000 < 2 ^ 63 \<Longrightarrow>
   sint (Unix t) = instant t div 1000000000"
  unfolding Unix_def by (rule sint_word_of_int_64)

text \<open>
  C4. For every time \<^verbatim>\<open>t\<close>, \<^verbatim>\<open>timestampEncoder\<close> appends exactly one element. If the encoder
  is an \<^verbatim>\<open>ArrayEncoder\<close>, the element is the object with the field \<^verbatim>\<open>seconds\<close> holding
  \<^verbatim>\<open>t.Unix()\<close> and the field \<^verbatim>\<open>nanos\<close> holding \<^verbatim>\<open>t.Nanosecond()\<close>, in this order. Otherwise
  it is the string that renders \<^verbatim>\<open>t\<close> in the layout of RFC 3339 with nanoseconds.
\<close>

theorem timestampEncoder_shapes:
  "timestampEncoder lib t enc =
     enc\<lparr>elems := elems enc @
       [if is_ArrayEncoder enc then
          ObjectElem
            [(''seconds'', Int64Field (Unix t)), (''nanos'', IntField (Nanosecond t))]
        else StringElem (Time_Format lib t ''2006-01-02T15:04:05.999999999Z07:00'')]\<rparr>"
  by (simp add: timestampEncoder_def AppendObject_def timestamp_MarshalLogObject_def
      AddInt64_def AddInt_def Let_def RFC3339NanoTimeEncoder_def RFC3339Nano_def
      AppendString_def)

theorem timestampEncoder_shapes_witness:
  "\<forall>lib.
     timestampEncoder lib \<lparr>instant = 1700000000123000000, location = ''UTC''\<rparr>
       \<lparr>is_ArrayEncoder = True, elems = []\<rparr> =
     \<lparr>is_ArrayEncoder = True,
      elems = [ObjectElem
        [(''seconds'', Int64Field 1700000000), (''nanos'', IntField 123000000)]]\<rparr> \<and>
     timestampEncoder lib \<lparr>instant = 1700000000123000000, location = ''UTC''\<rparr>
       \<lparr>is_ArrayEncoder = False, elems = []\<rparr> =
     \<lparr>is_ArrayEncoder = False,
      elems = [StringElem (Time_Format lib
        \<lparr>instant = 1700000000123000000, location = ''UTC''\<rparr>
        ''2006-01-02T15:04:05.999999999Z07:00'')]\<rparr>"
proof
  fix lib
  let ?t = "\<lparr>instant = 1700000000123000000, location = ''UTC''\<rparr>"
  have u: "Unix ?t = 1700000000" and n: "Nanosecond ?t = 123000000"
    by (simp_all add: Unix_def Nanosecond_def)
  show "timestampEncoder lib ?t \<lparr>is_ArrayEncoder = True, elems = []\<rparr> =
     \<lparr>is_ArrayEncoder = True,
      elems = [ObjectElem
        [(''seconds'', Int64Field 1700000000), (''nanos'', IntField 123000000)]]\<rparr> \<and>
     timestampEncoder lib ?t \<lparr>is_ArrayEncoder = False, elems = []\<rparr> =
     \<lparr>is_ArrayEncoder = False,
      elems = [StringElem (Time_Format lib ?t ''2006-01-02T15:04:05.999999999Z07:00'')]\<rparr>"
    using timestampEncoder_shapes [of lib ?t "\<lparr>is_ArrayEncoder = True, elems = []\<rparr>"]
      timestampEncoder_shapes [of lib ?t "\<lparr>is_ArrayEncoder = False, elems = []\<rparr>"]
    by (simp add: u n)
qed

text \<open>
  C9, as stated: for every time \<^verbatim>\<open>t\<close>, the \<^verbatim>\<open>seconds\<close> field of the object that
  \<^verbatim>\<open>timestampEncoder\<close> appends to an \<^verbatim>\<open>ArrayEncoder\<close> is the number of whole seconds from
  the Unix epoch to \<^verbatim>\<open>t\<close>. It is not for the time 292277026596-12-04T15:30:08Z, which is
  9223372036854775808 seconds, that is 2^63 seconds, after the epoch: there
  \<^verbatim>\<open>t.Unix()\<close> has wrapped around, and the field holds -9223372036854775808, the least
  \<^verbatim>\<open>int64\<close>.
\<close>

theorem timestampEncoder_range_counterexample:
  "\<forall>lib.
     elems (timestampEncoder lib
       \<lparr>instant = 9223372036854775808000000000, location = ''UTC''\<rparr>
       \<lparr>is_ArrayEncoder = True, elems = []\<rparr>) =
       [ObjectElem
         [(''seconds'', Int64Field (- 9223372036854775808)), (''nanos'', IntField 0)]] \<and>
     sint (- 9223372036854775808 :: 64 word) = - 9223372036854775808 \<and>
     instant \<lparr>instant = 9223372036854775808000000000, location = ''UTC''\<rparr> div 1000000000 =
       9223372036854775808"
proof
  fix lib
  let ?t = "\<lparr>instant = 9223372036854775808000000000, location = ''UTC''\<rparr>"
  have u: "Unix ?t = - 9223372036854775808" and n: "Nanosecond ?t = 0"
    by (simp_all add: Unix_def Nanosecond_def)
  have e: "elems (timestampEncoder lib ?t \<lparr>is_ArrayEncoder = True, elems = []\<rparr>) =
      [ObjectElem
        [(''seconds'', Int64Field (- 9223372036854775808)), (''nanos'', IntField 0)]]"
    by (simp add: timestampEncoder_def AppendObject_def timestamp_MarshalLogObject_def
        AddInt64_def AddInt_def Let_def u n)
  have s: "sint (- 9223372036854775808 :: 64 word) = - 9223372036854775808"
    by simp
  show "elems (timestampEncoder lib ?t \<lparr>is_ArrayEncoder = True, elems = []\<rparr>) =
       [ObjectElem
         [(''seconds'', Int64Field (- 9223372036854775808)), (''nanos'', IntField 0)]] \<and>
     sint (- 9223372036854775808 :: 64 word) = - 9223372036854775808 \<and>
     instant ?t div 1000000000 = 9223372036854775808"
    using e s by simp
qed

text \<open>
  C9, amended: for every time \<^verbatim>\<open>t\<close>, the object that \<^verbatim>\<open>timestampEncoder\<close> appends to an
  \<^verbatim>\<open>ArrayEncoder\<close> has a \<^verbatim>\<open>nanos\<close> field in the range from 0 up to, and not including,
  1000000000, which is the offset of \<^verbatim>\<open>t\<close> within its second. For every time \<^verbatim>\<open>t\<close> whose
  number of whole seconds from the Unix epoch is an \<^verbatim>\<open>int64\<close>, the \<^verbatim>\<open>seconds\<close> field is
  that number, and the two fields together give back the instant of \<^verbatim>\<open>t\<close> to the
  nanosecond.
\<close>

theorem timestampEncoder_range:
  "is_ArrayEncoder enc \<Longrightarrow>
   elems (timestampEncoder lib t enc) =
     elems enc @
       [ObjectElem [(''seconds'', Int64Field (Unix t)), (''nanos'', IntField (Nanosecond t))]] \<and>
   0 \<le> sint (Nanosecond t) \<and> sint (Nanosecond t) < 1000000000 \<and>
   sint (Nanosecond t) = instant t mod 1000000000 \<and>
   (- (2 ^ 63) \<le> instant t div 1000000000 \<and> instant t div 1000000000 < 2 ^ 63 \<longrightarrow>
      sint (Unix t) = instant t div 1000000000 \<and>
      sint (Unix t) * 1000000000 + sint (Nanosecond t) = instant t)"
proof -
  assume a: "is_ArrayEncoder enc"
  have e: "elems (timestampEncoder lib t enc) =
      elems enc @
        [ObjectElem [(''seconds'', Int64Field (Unix t)), (''nanos'', IntField (Nanosecond t))]]"
    using a by (simp add: timestampEncoder_def AppendObject_def timestamp_MarshalLogObject_def
      AddInt64_def AddInt_def Let_def)
  have r: "0 \<le> sint (Nanosecond t) \<and> sint (Nanosecond t) < 1000000000"
    by (simp add: sint_Nanosecond)
  have q: "sint (Unix t) = instant t div 1000000000 \<and>
      sint (Unix t) * 1000000000 + sint (Nanosecond t) = instant t"
    if "- (2 ^ 63) \<le> instant t div 1000000000" and "instant t div 1000000000 < 2 ^ 63"
    using that by (simp add: sint_Nanosecond sint_Unix)
  show ?thesis
    using e r q sint_Nanosecond [of t] by blast
qed

text \<open>
  An instant one and a half seconds before the epoch: the whole seconds are rounded
  down to -2, and the offset within the second is half a second.
\<close>

theorem timestampEncoder_range_witness:
  "\<forall>lib.
     is_ArrayEncoder \<lparr>is_ArrayEncoder = True, elems = []\<rparr> \<and>
     - (2 ^ 63) \<le> instant \<lparr>instant = - 1500000000, location = ''Local''\<rparr> div 1000000000 \<and>
     instant \<lparr>instant = - 1500000000, location = ''Local''\<rparr> div 1000000000 < 2 ^ 63 \<and>
     elems (timestampEncoder lib \<lparr>instant = - 1500000000, location = ''Local''\<rparr>
       \<lparr>is_ArrayEncoder = True, elems = []\<rparr>) =
       [ObjectElem [(''seconds'', Int64Field (- 2)), (''nanos'', IntField 500000000)]] \<and>
     sint (- 2 :: 64 word) * 1000000000 + sint (500000000 :: 64 word) =
       instant \<lparr>instant = - 1500000000, location = ''Local''\<rparr>"
proof
  fix lib
  let ?t = "\<lparr>instant = - 1500000000, location = ''Local''\<rparr>"
  let ?enc = "\<lparr>is_ArrayEncoder = True, elems = []\<rparr>"
  have a: "is_ArrayEncoder ?enc" by simp
  have lo: "- (2 ^ 63) \<le> instant ?t div 1000000000" and hi: "instant ?t div 1000000000 < 2 ^ 63"
    by simp_all
  have u: "Unix ?t = - 2" and n: "Nanosecond ?t = 500000000"
    by (simp_all add: Unix_def Nanosecond_def)
  show "is_ArrayEncoder ?enc \<and>
     - (2 ^ 63) \<le> instant ?t div 1000000000 \<and>
     instant ?t div 1000000000 < 2 ^ 63 \<and>
     elems (timestampEncoder lib ?t ?enc) =
       [ObjectElem [(''seconds'', Int64Field (- 2)), (''nanos'', IntField 500000000)]] \<and>
     sint (- 2 :: 64 word) * 1000000000 + sint (500000000 :: 64 word) = instant ?t"
    using timestampEncoder_range [OF a, of lib ?t] lo hi by (simp add: u n)
qed

section \<open>Properties of the builders\<close>

lemma NewProductionConfig_eq:
  "NewProductionConfig lib h =
     (\<lparr>Level = length h, Development = False, Sampling = length h + 1, Encoding = ''json'',
       EncoderConfig = encoderConfig lib, OutputPaths = length h + 2,
       ErrorOutputPaths = length h + 3\<rparr>,
      h @ [AtomicLevelCell InfoLevel, SamplingCell \<lparr>Initial = 100, Thereafter = 100\<rparr>,
           StringSliceCell [''stderr''], StringSliceCell [''stderr'']])"
  by (simp add: NewProductionConfig_def NewAtomicLevelAt_def alloc_def
      NewProductionEncoderConfig_def)

lemma NewDevelopmentConfig_eq:
  "NewDevelopmentConfig lib h =
     (\<lparr>Level = length h, Development = True, Sampling = length h + 1, Encoding = ''json'',
       EncoderConfig = encoderConfig lib, OutputPaths = length h + 2,
       ErrorOutputPaths = length h + 3\<rparr>,
      h @ [AtomicLevelCell DebugLevel, SamplingCell \<lparr>Initial = 100, Thereafter = 100\<rparr>,
           StringSliceCell [''stderr''], StringSliceCell [''stderr'']])"
  by (simp add: NewDevelopmentConfig_def NewAtomicLevelAt_def alloc_def
      NewDevelopmentEncoderConfig_def)

lemmas read_defs = config_value_def AtomicLevel_Level_def deref_Sampling_def slice_elems_def

lemma build_eq:
  "build d lib h =
     (\<lparr>Level = length h, Development = d, Sampling = length h + 1, Encoding = ''json'',
       EncoderConfig = encoderConfig lib, OutputPaths = length h + 2,
       ErrorOutputPaths = length h + 3\<rparr>,
      h @ [AtomicLevelCell (if d then DebugLevel else InfoLevel),
           SamplingCell \<lparr>Initial = 100, Thereafter = 100\<rparr>,
           StringSliceCell [''stderr''], StringSliceCell [''stderr'']])"
  by (simp add: build_def NewProductionConfig_eq NewDevelopmentConfig_eq)

lemma build_value:
  "config_value (snd (build d lib h)) (fst (build d lib h)) =
     \<lparr>Level_value = Some (if d then DebugLevel else InfoLevel),
      Development_value = d,
      Sampling_value = Some \<lparr>Initial = 100, Thereafter = 100\<rparr>,
      Encoding_value = ''json'',
      EncoderConfig_value = encoderConfig lib,
      OutputPaths_value = Some [''stderr''],
      ErrorOutputPaths_value = Some [''stderr'']\<rparr>"
  by (simp add: build_eq read_defs load_def nth_append)

lemma load_store_other: "a \<noteq> b \<Longrightarrow> load (store a c h) b = load h b"
  by (simp add: load_def store_def)

lemma config_value_cong:
  "list_all (\<lambda>a. load h a = load g a) (refs c) \<Longrightarrow> config_value h c = config_value g c"
  by (simp add: refs_def read_defs)

text \<open>
  C5. Whatever the store it is called in, \<^verbatim>\<open>NewProductionConfig\<close> returns a configuration
  whose level reads Info, whose development flag is false, whose sampling policy is
  Initial 100 and Thereafter 100, whose encoding is \<^verbatim>\<open>json\<close>, whose encoder
  configuration is that of \<^verbatim>\<open>NewProductionEncoderConfig\<close>, and whose output paths and
  error output paths both are the one element list of \<^verbatim>\<open>stderr\<close>.
\<close>

theorem NewProductionConfig_value:
  "config_value (snd (NewProductionConfig lib h)) (fst (NewProductionConfig lib h)) =
     \<lparr>Level_value = Some InfoLevel,
      Development_value = False,
      Sampling_value = Some \<lparr>Initial = 100, Thereafter = 100\<rparr>,
      Encoding_value = ''json'',
      EncoderConfig_value = NewProductionEncoderConfig lib,
      OutputPaths_value = Some [''stderr''],
      ErrorOutputPaths_value = Some [''stderr'']\<rparr>"
  by (simp add: NewProductionConfig_eq read_defs load_def nth_append
      NewProductionEncoderConfig_def)

text \<open>
  C6. \<^verbatim>\<open>NewDevelopmentConfig\<close> returns what \<^verbatim>\<open>NewProductionConfig\<close> returns, but for two
  fields: the level reads Debug where production reads Info, and the development flag
  is true where production has false. The sampling policy, the encoding, both lists of
  output paths and the whole encoder configuration agree, the two encoder configuration
  builders being equal. Called in the same store, the two builders return structs that
  differ in the development flag only, the level being behind the same address.
\<close>

theorem NewDevelopmentConfig_differs_in_level_and_flag:
  "config_value (snd (NewDevelopmentConfig lib h)) (fst (NewDevelopmentConfig lib h)) =
     (config_value (snd (NewProductionConfig lib g)) (fst (NewProductionConfig lib g)))
       \<lparr>Level_value := Some DebugLevel, Development_value := True\<rparr> \<and>
   Level_value (config_value (snd (NewProductionConfig lib g)) (fst (NewProductionConfig lib g))) =
     Some InfoLevel \<and>
   Development_value
     (config_value (snd (NewProductionConfig lib g)) (fst (NewProductionConfig lib g))) = False \<and>
   DebugLevel \<noteq> InfoLevel \<and>
   NewDevelopmentEncoderConfig lib = NewProductionEncoderConfig lib \<and>
   fst (NewDevelopmentConfig lib h) = (fst (NewProductionConfig lib h))\<lparr>Development := True\<rparr>"
  by (simp add: NewProductionConfig_eq NewDevelopmentConfig_eq read_defs load_def nth_append
      NewProductionEncoderConfig_def NewDevelopmentEncoderConfig_def Level_defs)

text \<open>
  C7. The encoder configuration of both encoder configuration builders, and so of the
  configurations that \<^verbatim>\<open>NewProductionConfig\<close> and \<^verbatim>\<open>NewDevelopmentConfig\<close> return, binds
  the message to \<^verbatim>\<open>message\<close>, the level to \<^verbatim>\<open>severity\<close>, the time to \<^verbatim>\<open>timestamp\<close>, the
  logger name to \<^verbatim>\<open>logger\<close>, the caller to \<^verbatim>\<open>logging.googleapis.com/sourceLocation\<close> and
  the stack trace to \<^verbatim>\<open>stacktrace\<close>, and the function name to \<^verbatim>\<open>zapcore.OmitKey\<close>.
\<close>

theorem encoderConfig_keys:
  "cloud_logging_keys lib (NewProductionEncoderConfig lib) \<and>
   cloud_logging_keys lib (NewDevelopmentEncoderConfig lib) \<and>
   cloud_logging_keys lib (EncoderConfig (fst (NewProductionConfig lib h))) \<and>
   cloud_logging_keys lib (EncoderConfig (fst (NewDevelopmentConfig lib h)))"
  by (simp add: cloud_logging_keys_def NewProductionConfig_eq NewDevelopmentConfig_eq
      NewProductionEncoderConfig_def NewDevelopmentEncoderConfig_def encoderConfig_def)

text \<open>
  C8. Take either builder (\<^verbatim>\<open>build d\<close>), call it in a store \<^verbatim>\<open>h\<close>, then, after any further
  allocations \<^verbatim>\<open>hx\<close>, call either builder again; and call the first builder in any other
  store \<^verbatim>\<open>g\<close>. Then
  \<^item> the two calls of the same builder return configurations that are equal as values;
  \<^item> each call leaves all cells that existed before it as they were;
  \<^item> the eight references of the two configurations returned in sequence are pairwise
    distinct, so that no memory is shared between them, nor between two fields of one;
  \<^item> the first configuration reads the same after the second call as before it;
  \<^item> a write through any reference of one configuration leaves what the other
    configuration reads unchanged.
\<close>

theorem builders_pure:
  "(let (c1, h1) = build d lib h;
        (c2, h2) = build d' lib (h1 @ hx);
        (c, g') = build d lib g
    in config_value g' c = config_value h1 c1 \<and>
       take (length h) h1 = h \<and>
       take (length (h1 @ hx)) h2 = h1 @ hx \<and>
       distinct (refs c1 @ refs c2) \<and>
       config_value h2 c1 = config_value h1 c1 \<and>
       list_all (\<lambda>a. config_value (store a x h2) c2 = config_value h2 c2) (refs c1) \<and>
       list_all (\<lambda>a. config_value (store a x h2) c1 = config_value h2 c1) (refs c2))"
proof -
  obtain c1 h1 where b1: "build d lib h = (c1, h1)"
    by (cases "build d lib h")
  obtain c2 h2 where b2: "build d' lib (h1 @ hx) = (c2, h2)"
    by (cases "build d' lib (h1 @ hx)")
  obtain c g' where b3: "build d lib g = (c, g')"
    by (cases "build d lib g")
  have c1: "c1 = fst (build d lib h)" and h1: "h1 = snd (build d lib h)"
    using b1 by simp_all
  have c2: "c2 = fst (build d' lib (h1 @ hx))" and h2: "h2 = snd (build d' lib (h1 @ hx))"
    using b2 by simp_all
  have equal_values: "config_value g' c = config_value h1 c1"
    using build_value [of d lib g] build_value [of d lib h] b1 b3 by simp
  have kept1: "take (length h) h1 = h"
    by (simp add: h1 build_eq)
  have kept2: "take (length (h1 @ hx)) h2 = h1 @ hx"
    by (simp add: h2 build_eq)
  have len1: "length h1 = length h + 4"
    by (simp add: h1 build_eq)
  have r1: "refs c1 = [length h, length h + 1, length h + 2, length h + 3]"
    by (simp add: c1 build_eq refs_def)
  have r2: "refs c2 = [length h1 + length hx, length h1 + length hx + 1,
      length h1 + length hx + 2, length h1 + length hx + 3]"
    by (simp add: c2 build_eq refs_def)
  have apart: "distinct (refs c1 @ refs c2)"
    by (simp add: r1 r2 len1)
  have split: "h2 = (h1 @ hx) @ drop (length (h1 @ hx)) h2"
    using kept2 append_take_drop_id [of "length (h1 @ hx)" h2] by simp
  have "list_all (\<lambda>a. load h2 a = load h1 a) (refs c1)"
    by (subst split) (simp add: r1 len1 load_def nth_append)
  then have unchanged: "config_value h2 c1 = config_value h1 c1"
    by (rule config_value_cong)
  have w1: "list_all (\<lambda>a. config_value (store a x h2) c2 = config_value h2 c2) (refs c1)"
    by (simp add: r1 r2 len1 read_defs c2 build_eq load_store_other)
  have w2: "list_all (\<lambda>a. config_value (store a x h2) c1 = config_value h2 c1) (refs c2)"
    by (simp add: r1 r2 len1 read_defs c1 build_eq load_store_other)
  show ?thesis
    using equal_values kept1 kept2 apart unchanged w1 w2 by (simp add: b1 b2 b3)
qed

text \<open>
  The production builder and then the development builder, called in the empty store:
  setting the level of the first configuration to Error shows in the first and not in
  the second.
\<close>

theorem builders_pure_witness:
  "\<forall>lib.
     (let (c1, h1) = build False lib [];
          (c2, h2) = build True lib h1;
          h3 = store (Level c1) (AtomicLevelCell ErrorLevel) h2
      in refs c1 = [0, 1, 2, 3] \<and> refs c2 = [4, 5, 6, 7] \<and>
         AtomicLevel_Level h2 (Level c1) = Some InfoLevel \<and>
         AtomicLevel_Level h3 (Level c1) = Some ErrorLevel \<and>
         config_value h3 c2 = config_value h2 c2 \<and>
         AtomicLevel_Level h3 (Level c2) = Some DebugLevel)"
proof
  fix lib
  show "(let (c1, h1) = build False lib [];
          (c2, h2) = build True lib h1;
          h3 = store (Level c1) (AtomicLevelCell ErrorLevel) h2
      in refs c1 = [0, 1, 2, 3] \<and> refs c2 = [4, 5, 6, 7] \<and>
         AtomicLevel_Level h2 (Level c1) = Some InfoLevel \<and>
         AtomicLevel_Level h3 (Level c1) = Some ErrorLevel \<and>
         config_value h3 c2 = config_value h2 c2 \<and>
         AtomicLevel_Level h3 (Level c2) = Some DebugLevel)"
    using builders_pure [of False lib "[]" True "[]" "[]" "AtomicLevelCell ErrorLevel"]
    by (simp add: build_eq refs_def read_defs load_def store_def)
qed

end
